theory Spec2Isabelle
  imports Main
begin

section \<open>Entities and errors of package container\<close>

text \<open>
  The reasons of a failed operation (type \<open>OperationErr\<close>, a string in the source with three
  constants) and the error values. A Go \<open>error\<close> is either an error of a collaborator, opaque
  to this package and identified here by its message, or an \<open>OperatorErr\<close> holding a reason
  and the wrapped error, which may be nil.
\<close>

datatype OperationErr = ErrContainerList | ErrContainerStats | ErrContainerKill

datatype error = ExternalErr string | OperatorErr OperationErr "error option"

record Container =
  ID :: string
  Names :: "string list"

record Stats =
  MemoryMB :: int
  CPUSec :: int

text \<open>
  Interface \<open>Interactor\<close>. The backend is outside the package and has state of its own, so
  each method takes the state of the world \<open>'w\<close> and returns its answer with the world after the
  call. An answer is the pair a Go function returns: the value and the error, nil being
  \<open>None\<close>. The context \<open>'c\<close> is handed through unchanged.
\<close>

record ('c, 'w) Interactor =
  ContainerList :: "'c \<Rightarrow> 'w \<Rightarrow> (Container list \<times> error option) \<times> 'w"
  ContainerStats :: "'c \<Rightarrow> string \<Rightarrow> 'w \<Rightarrow> (Stats option \<times> error option) \<times> 'w"
  ContainerKill :: "'c \<Rightarrow> string \<Rightarrow> 'w \<Rightarrow> error option \<times> 'w"

text \<open>
  The filesystem functions the package calls: \<open>fs.RelToAbsPath\<close>, \<open>os.Stat\<close> (only its
  error is used), \<open>fs.ReadFile\<close> and \<open>filepath.Glob\<close>. They are not part of the package and are
  parameters of the model.
\<close>

record 'w FileSystem =
  RelToAbsPath :: "string \<Rightarrow> string \<Rightarrow> string"
  Stat :: "string \<Rightarrow> 'w \<Rightarrow> error option \<times> 'w"
  ReadFile :: "string \<Rightarrow> 'w \<Rightarrow> (string \<times> error option) \<times> 'w"
  Glob :: "string \<Rightarrow> 'w \<Rightarrow> (string list \<times> error option) \<times> 'w"

record ('c, 'w) Operator =
  client :: "('c, 'w) Interactor"
  existingContainers :: "string \<rightharpoonup> bool"

text \<open>
  Every method of \<open>*Operator\<close> has a pointer receiver, so it returns its result together
  with the operator after the call and the world after the call.
\<close>

type_synonym ('a, 'c, 'w) outcome = "'a \<times> ('c, 'w) Operator \<times> 'w"

section \<open>Library functions of Go used by the package\<close>

text \<open>Reading a \<open>map[string]bool\<close>: a missing key reads as \<open>false\<close>.\<close>

definition lookup :: "(string \<rightharpoonup> bool) \<Rightarrow> string \<Rightarrow> bool" where
  "lookup m k = (case m k of None \<Rightarrow> False | Some b \<Rightarrow> b)"

definition HasPrefix :: "string \<Rightarrow> string \<Rightarrow> bool" where
  "HasPrefix s prefix = (length s \<ge> length prefix \<and> take (length prefix) s = prefix)"

definition TrimPrefix :: "string \<Rightarrow> string \<Rightarrow> string" where
  "TrimPrefix s prefix = (if HasPrefix s prefix then drop (length prefix) s else s)"

definition HasSuffix :: "string \<Rightarrow> string \<Rightarrow> bool" where
  "HasSuffix s suffix =
     (length s \<ge> length suffix \<and> drop (length s - length suffix) s = suffix)"

definition TrimSuffix :: "string \<Rightarrow> string \<Rightarrow> string" where
  "TrimSuffix s suffix = (if HasSuffix s suffix then take (length s - length suffix) s else s)"

definition newline :: string where
  "newline = [CHR 0x0A]"

section \<open>The Operator\<close>

definition NewOperator :: "('c, 'w) Interactor \<Rightarrow> ('c, 'w) Operator" where
  "NewOperator cntrInteractor = \<lparr>client = cntrInteractor, existingContainers = Map.empty\<rparr>"

definition GetCurrentContainers ::
  "('c, 'w) Operator \<Rightarrow> 'c \<Rightarrow> 'w \<Rightarrow> (Container list \<times> error option, 'c, 'w) outcome" where
  "GetCurrentContainers opr ctx w =
     (case ContainerList (client opr) ctx w of
        ((contnrList, err), w') \<Rightarrow>
          if err \<noteq> None then (([], Some (OperatorErr ErrContainerList err)), opr, w')
          else ((contnrList, None), opr, w'))"

text \<open>The loop of \<open>RememberCurrentContainerIDs\<close>: one store into the map per container.\<close>

fun remember_loop :: "Container list \<Rightarrow> ('c, 'w) Operator \<Rightarrow> ('c, 'w) Operator" where
  "remember_loop [] opr = opr"
| "remember_loop (container # rest) opr =
     remember_loop rest
       (opr\<lparr>existingContainers := (existingContainers opr)(ID container \<mapsto> True)\<rparr>)"

definition RememberCurrentContainerIDs ::
  "('c, 'w) Operator \<Rightarrow> 'c \<Rightarrow> 'w \<Rightarrow> (error option, 'c, 'w) outcome" where
  "RememberCurrentContainerIDs opr ctx w =
     (case GetCurrentContainers opr ctx w of
        ((curContainers, err), opr', w') \<Rightarrow>
          if err \<noteq> None then (err, opr', w')
          else (None, remember_loop curContainers opr', w'))"

text \<open>The loop of \<open>GetNewContainers\<close>, appending to \<open>newContainers\<close>.\<close>

fun new_loop ::
  "('c, 'w) Operator \<Rightarrow> Container list \<Rightarrow> Container list \<Rightarrow> Container list" where
  "new_loop opr [] newContainers = newContainers"
| "new_loop opr (container # rest) newContainers =
     (if \<not> lookup (existingContainers opr) (ID container)
      then new_loop opr rest (newContainers @ [container])
      else new_loop opr rest newContainers)"

definition GetNewContainers ::
  "('c, 'w) Operator \<Rightarrow> 'c \<Rightarrow> 'w \<Rightarrow> (Container list \<times> error option, 'c, 'w) outcome" where
  "GetNewContainers opr ctx w =
     (case GetCurrentContainers opr ctx w of
        ((curContainers, err), opr', w') \<Rightarrow>
          if err \<noteq> None then (([], err), opr', w')
          else ((new_loop opr' curContainers [], None), opr', w'))"

text \<open>
  The loop of \<open>GetNewContainerIDs\<close> writes the ID of the container at index \<open>idx\<close> into a
  slice made with the length of the list, so every index is in range.
\<close>

fun ids_loop :: "nat \<Rightarrow> Container list \<Rightarrow> string list \<Rightarrow> string list" where
  "ids_loop idx [] newContainersIDs = newContainersIDs"
| "ids_loop idx (container # rest) newContainersIDs =
     ids_loop (Suc idx) rest (newContainersIDs[idx := ID container])"

definition GetNewContainerIDs ::
  "('c, 'w) Operator \<Rightarrow> 'c \<Rightarrow> 'w \<Rightarrow> (string list \<times> error option, 'c, 'w) outcome" where
  "GetNewContainerIDs opr ctx w =
     (case GetNewContainers opr ctx w of
        ((newContainers, err), opr', w') \<Rightarrow>
          if err \<noteq> None then (([], err), opr', w')
          else ((ids_loop 0 newContainers (replicate (length newContainers) ''''), None),
                opr', w'))"

fun names_loop :: "string \<Rightarrow> string list \<Rightarrow> bool" where
  "names_loop name [] = False"
| "names_loop name (cname # rest) =
     (if TrimPrefix cname ''/'' = name then True else names_loop name rest)"

definition HasName :: "('c, 'w) Operator \<Rightarrow> string \<Rightarrow> Container \<Rightarrow> bool" where
  "HasName opr name container = names_loop name (Names container)"

fun by_name_loop ::
  "('c, 'w) Operator \<Rightarrow> string \<Rightarrow> Container list \<Rightarrow> string \<times> error option" where
  "by_name_loop opr name [] = ('''', None)"
| "by_name_loop opr name (cntr # rest) =
     (if HasName opr name cntr then (ID cntr, None) else by_name_loop opr name rest)"

definition GetNewContainerIDByName ::
  "('c, 'w) Operator \<Rightarrow> 'c \<Rightarrow> string \<Rightarrow> 'w \<Rightarrow> (string \<times> error option, 'c, 'w) outcome" where
  "GetNewContainerIDByName opr ctx name w =
     (case GetNewContainers opr ctx w of
        ((newContainers, err), opr', w') \<Rightarrow>
          if err \<noteq> None then (('''', err), opr', w')
          else (by_name_loop opr' name newContainers, opr', w'))"

fun verify_loop :: "string \<Rightarrow> Container list \<Rightarrow> bool \<times> error option" where
  "verify_loop cid [] = (False, None)"
| "verify_loop cid (container # rest) =
     (if ID container = cid then (True, None) else verify_loop cid rest)"

definition verifyID ::
  "('c, 'w) Operator \<Rightarrow> 'c \<Rightarrow> string \<Rightarrow> 'w \<Rightarrow> (bool \<times> error option, 'c, 'w) outcome" where
  "verifyID opr ctx cid w =
     (case GetCurrentContainers opr ctx w of
        ((curContainers, err), opr', w') \<Rightarrow>
          if err \<noteq> None then ((False, err), opr', w')
          else (verify_loop cid curContainers, opr', w'))"

definition cidPathToID ::
  "('c, 'w) Operator \<Rightarrow> 'w FileSystem \<Rightarrow> 'c \<Rightarrow> string \<Rightarrow> 'w
     \<Rightarrow> (string \<times> error option, 'c, 'w) outcome" where
  "cidPathToID opr fs ctx cidPath w =
     (case ReadFile fs cidPath w of
        ((fileContent, err), w1) \<Rightarrow>
          if err \<noteq> None then (('''', err), opr, w1)
          else
            (let cid = TrimSuffix fileContent newline in
             case verifyID opr ctx cid w1 of
               ((ok, err'), opr', w2) \<Rightarrow>
                 if ok then ((cid, None), opr', w2) else (('''', err'), opr', w2)))"

text \<open>The loop of \<open>cidPathGlobToID\<close> over the paths the glob matched.\<close>

fun glob_loop ::
  "('c, 'w) Operator \<Rightarrow> 'w FileSystem \<Rightarrow> 'c \<Rightarrow> string list \<Rightarrow> 'w
     \<Rightarrow> (string \<times> error option, 'c, 'w) outcome" where
  "glob_loop opr fs ctx [] w = (('''', None), opr, w)"
| "glob_loop opr fs ctx (path # rest) w =
     (case cidPathToID opr fs ctx path w of
        ((cid, err), opr', w') \<Rightarrow>
          if err \<noteq> None then glob_loop opr' fs ctx rest w'
          else if cid \<noteq> '''' then ((cid, None), opr', w')
          else glob_loop opr' fs ctx rest w')"

definition cidPathGlobToID ::
  "('c, 'w) Operator \<Rightarrow> 'w FileSystem \<Rightarrow> 'c \<Rightarrow> string \<Rightarrow> 'w
     \<Rightarrow> (string \<times> error option, 'c, 'w) outcome" where
  "cidPathGlobToID opr fs ctx cidGlobPath w =
     (case Glob fs cidGlobPath w of
        ((paths, err), w') \<Rightarrow>
          if err \<noteq> None then (('''', err), opr, w')
          else glob_loop opr fs ctx paths w')"

definition GetContainerIDByPath ::
  "('c, 'w) Operator \<Rightarrow> 'w FileSystem \<Rightarrow> 'c \<Rightarrow> string \<Rightarrow> string \<Rightarrow> 'w
     \<Rightarrow> (string \<times> error option, 'c, 'w) outcome" where
  "GetContainerIDByPath opr fs ctx path dir w =
     (let cidPath = RelToAbsPath fs path dir in
      case Stat fs cidPath w of
        (err, w') \<Rightarrow>
          if err = None then cidPathToID opr fs ctx cidPath w'
          else cidPathGlobToID opr fs ctx cidPath w')"

definition Operator_ContainerStats ::
  "('c, 'w) Operator \<Rightarrow> 'c \<Rightarrow> string \<Rightarrow> 'w \<Rightarrow> (Stats option \<times> error option, 'c, 'w) outcome" where
  "Operator_ContainerStats opr ctx containerID w =
     (case ContainerStats (client opr) ctx containerID w of
        ((stats, err), w') \<Rightarrow>
          if err \<noteq> None then ((None, err), opr, w') else ((stats, None), opr, w'))"

definition KillContainer ::
  "('c, 'w) Operator \<Rightarrow> 'c \<Rightarrow> string \<Rightarrow> 'w \<Rightarrow> (error option, 'c, 'w) outcome" where
  "KillContainer opr ctx containerID w =
     (case ContainerKill (client opr) ctx containerID w of (err, w') \<Rightarrow> (err, opr, w'))"

section \<open>Observations used in the statements\<close>

text \<open>
  The remembered set of an operator: the IDs that read as \<open>true\<close> in \<open>existingContainers\<close>,
  which is the test \<open>GetNewContainers\<close> makes.
\<close>

definition remembered :: "('c, 'w) Operator \<Rightarrow> string set" where
  "remembered opr = {k. lookup (existingContainers opr) k}"

text \<open>
  A caller that makes one \<open>RememberCurrentContainerIDs\<close> call per world of the list, in order.
  Between two calls the world may change in any way, so each call starts in a world of its
  own; the operator is the one the call before left.
\<close>

fun remember_calls :: "('c, 'w) Operator \<Rightarrow> 'c \<Rightarrow> 'w list \<Rightarrow> ('c, 'w) Operator" where
  "remember_calls opr ctx [] = opr"
| "remember_calls opr ctx (w # ws) =
     remember_calls (fst (snd (RememberCurrentContainerIDs opr ctx w))) ctx ws"

text \<open>
  Visiting one match of the glob, in the words of the specification: the file is read; if it
  cannot be read the match yields no ID. Otherwise the content less one trailing newline is
  the candidate, and the live containers are listed anew, in the world the read left; the
  match yields the candidate if the listing succeeded and the candidate is a non-empty ID of
  a listed container, and no ID otherwise. The second component is the world after the visit.
\<close>

definition visit ::
  "('c, 'w) Operator \<Rightarrow> 'w FileSystem \<Rightarrow> 'c \<Rightarrow> string \<Rightarrow> 'w \<Rightarrow> string option \<times> 'w" where
  "visit opr fs ctx p w =
     (case ReadFile fs p w of
        ((content, rerr), w1) \<Rightarrow>
          if rerr \<noteq> None then (None, w1)
          else
            (case ContainerList (client opr) ctx w1 of
               ((live, lerr), w2) \<Rightarrow>
                 if lerr = None \<and> TrimSuffix content newline \<noteq> ''''
                    \<and> TrimSuffix content newline \<in> ID ` set live
                 then (Some (TrimSuffix content newline), w2)
                 else (None, w2)))"

text \<open>The world after the matches of a list have been visited one after the other.\<close>

definition visit_all ::
  "('c, 'w) Operator \<Rightarrow> 'w FileSystem \<Rightarrow> 'c \<Rightarrow> string list \<Rightarrow> 'w \<Rightarrow> 'w" where
  "visit_all opr fs ctx ps w = foldl (\<lambda>w' p. snd (visit opr fs ctx p w')) w ps"

text \<open>No match of the list yields an ID when the matches are visited one after the other.\<close>

fun all_skipped ::
  "('c, 'w) Operator \<Rightarrow> 'w FileSystem \<Rightarrow> 'c \<Rightarrow> string list \<Rightarrow> 'w \<Rightarrow> bool" where
  "all_skipped opr fs ctx [] w = True"
| "all_skipped opr fs ctx (p # ps) w =
     (fst (visit opr fs ctx p w) = None \<and> all_skipped opr fs ctx ps (snd (visit opr fs ctx p w)))"

section \<open>A scripted backend and filesystem\<close>

text \<open>
  A deterministic fake of the collaborators, for evaluating the operations on concrete inputs:
  the world holds the live containers, the error of the list query if it is to fail, the
  files that exist, each with the answer of \<open>ReadFile\<close> for it, and the matches of each
  well-formed glob pattern. A file that is not listed does not exist; a pattern that is not
  listed is malformed.
\<close>

record FakeWorld =
  fw_live :: "Container list"
  fw_list_err :: "error option"
  fw_files :: "(string \<times> string \<times> error option) list"
  fw_globs :: "(string \<times> string list) list"

definition fake_client :: "(unit, FakeWorld) Interactor" where
  "fake_client =
     \<lparr>ContainerList = (\<lambda>ctx w. ((fw_live w, fw_list_err w), w)),
      ContainerStats = (\<lambda>ctx cid w.
        if cid \<in> ID ` set (fw_live w) then ((Some \<lparr>MemoryMB = 10, CPUSec = 5\<rparr>, None), w)
        else ((None, Some (ExternalErr ''no such container'')), w)),
      ContainerKill = (\<lambda>ctx cid w.
        if cid \<in> ID ` set (fw_live w) then (None, w)
        else (Some (ExternalErr ''no such container''), w))\<rparr>"

definition fake_fs :: "FakeWorld FileSystem" where
  "fake_fs =
     \<lparr>RelToAbsPath = (\<lambda>path dir. if HasPrefix path ''/'' then path else dir @ ''/'' @ path),
      Stat = (\<lambda>p w. case map_of (fw_files w) p of
                 None \<Rightarrow> (Some (ExternalErr ''no such file or directory''), w)
               | Some answer \<Rightarrow> (None, w)),
      ReadFile = (\<lambda>p w. case map_of (fw_files w) p of
                 None \<Rightarrow> (('''', Some (ExternalErr ''no such file or directory'')), w)
               | Some answer \<Rightarrow> (answer, w)),
      Glob = (\<lambda>p w. case map_of (fw_globs w) p of
                 None \<Rightarrow> (([], Some (ExternalErr ''syntax error in pattern'')), w)
               | Some paths \<Rightarrow> ((paths, None), w))\<rparr>"

definition cA :: Container where
  "cA = \<lparr>ID = ''A'', Names = [''/foo'']\<rparr>"

definition cB :: Container where
  "cB = \<lparr>ID = ''B'', Names = [''foo'']\<rparr>"

definition cC :: Container where
  "cC = \<lparr>ID = ''C'', Names = [''//foo'', ''/bar'']\<rparr>"

definition world_ABC :: FakeWorld where
  "world_ABC =
     \<lparr>fw_live = [cA, cB, cC], fw_list_err = None,
      fw_files = [(''/w/app0.cid'', '''', Some (ExternalErr ''permission denied'')),
                  (''/w/app1.cid'', ''stale'', None),
                  (''/w/app2.cid'', ''B'' @ newline, None)],
      fw_globs = [(''/w/*.cid'', [''/w/app0.cid'', ''/w/app1.cid'', ''/w/app2.cid'']),
                  (''/w/none*'', [])]\<rparr>"

definition world_AB :: FakeWorld where
  "world_AB = world_ABC\<lparr>fw_live := [cA, cB]\<rparr>"

definition world_down :: FakeWorld where
  "world_down = world_ABC\<lparr>fw_live := [], fw_list_err := Some (ExternalErr ''backend down'')\<rparr>"

definition c123 :: Container where
  "c123 = \<lparr>ID = ''abc123'', Names = [''/job'']\<rparr>"

definition cEmpty :: Container where
  "cEmpty = \<lparr>ID = '''', Names = []\<rparr>"

definition world_cid :: FakeWorld where
  "world_cid =
     \<lparr>fw_live = [c123], fw_list_err = None,
      fw_files = [(''/w/job.cid'', ''abc123'' @ newline, None),
                  (''/w/multi.cid'', ''abc123'' @ newline @ ''second line'' @ newline, None),
                  (''/w/stale.cid'', ''gone'' @ newline, None)],
      fw_globs = []\<rparr>"

definition world_empty_id :: FakeWorld where
  "world_empty_id =
     \<lparr>fw_live = [cEmpty, cB], fw_list_err = None,
      fw_files = [(''/w/app1.cid'', '''', None), (''/w/app2.cid'', ''B'' @ newline, None)],
      fw_globs = [(''/w/*.cid'', [''/w/app1.cid'', ''/w/app2.cid''])]\<rparr>"

definition oprA :: "(unit, FakeWorld) Operator" where
  "oprA = \<lparr>client = fake_client, existingContainers = [''A'' \<mapsto> True]\<rparr>"

text \<open>
  A backend in which the container \<open>B\<close> starts right after each list query, and two ID files
  that both hold the ID \<open>B\<close>.
\<close>

definition starting_client :: "(unit, FakeWorld) Interactor" where
  "starting_client =
     fake_client\<lparr>ContainerList :=
       (\<lambda>ctx w. ((fw_live w, fw_list_err w), w\<lparr>fw_live := fw_live w @ [cB]\<rparr>))\<rparr>"

definition world_late :: FakeWorld where
  "world_late =
     \<lparr>fw_live = [cA], fw_list_err = None,
      fw_files = [(''/w/app1.cid'', ''B'' @ newline, None),
                  (''/w/app2.cid'', ''B'' @ newline, None)],
      fw_globs = [(''/w/*.cid'', [''/w/app1.cid'', ''/w/app2.cid''])]\<rparr>"

definition oprLate :: "(unit, FakeWorld) Operator" where
  "oprLate = \<lparr>client = starting_client, existingContainers = Map.empty\<rparr>"

section \<open>Facts about the library functions and the loops\<close>

lemma TrimPrefix_slash:
  "TrimPrefix a ''/'' = (if a \<noteq> [] \<and> hd a = CHR ''/'' then tl a else a)"
  by (cases a) (simp_all add: TrimPrefix_def HasPrefix_def)

lemma TrimSuffix_newline:
  "TrimSuffix s newline = (if s \<noteq> [] \<and> last s = CHR 0x0A then butlast s else s)"
proof (cases s rule: rev_cases)
  case Nil
  then show ?thesis by (simp add: TrimSuffix_def HasSuffix_def newline_def)
next
  case (snoc ys y)
  then show ?thesis by (simp add: TrimSuffix_def HasSuffix_def newline_def)
qed

lemma new_loop_filter:
  "new_loop opr cs acc = acc @ filter (\<lambda>c. ID c \<notin> remembered opr) cs"
  by (induction cs arbitrary: acc) (simp_all add: remembered_def)

lemma ids_loop_map:
  "idx + length cs \<le> length out \<Longrightarrow>
   ids_loop idx cs out = take idx out @ map ID cs @ drop (idx + length cs) out"
proof (induction cs arbitrary: idx out)
  case Nil
  then show ?case by simp
next
  case (Cons c cs)
  have "ids_loop (Suc idx) cs (out[idx := ID c]) =
        take (Suc idx) (out[idx := ID c]) @ map ID cs
          @ drop (Suc idx + length cs) (out[idx := ID c])"
    using Cons.prems by (intro Cons.IH) simp
  moreover have "take (Suc idx) (out[idx := ID c]) = take idx out @ [ID c]"
    using Cons.prems by (simp add: take_Suc_conv_app_nth)
  ultimately show ?case by simp
qed

lemma ids_loop_all: "ids_loop 0 cs (replicate (length cs) x) = map ID cs"
  using ids_loop_map [of 0 cs "replicate (length cs) x"] by simp

lemma names_loop_iff:
  "names_loop name ns = (\<exists>a \<in> set ns. TrimPrefix a ''/'' = name)"
  by (induction ns) simp_all

lemma by_name_loop_find:
  "by_name_loop opr name cs =
     (case find (HasName opr name) cs of None \<Rightarrow> ('''', None) | Some c \<Rightarrow> (ID c, None))"
  by (induction cs) simp_all

lemma verify_loop_iff: "verify_loop cid cs = (cid \<in> ID ` set cs, None)"
  by (induction cs) auto

lemma remember_loop_client: "client (remember_loop cs opr) = client opr"
  by (induction cs arbitrary: opr) simp_all

lemma remember_loop_map:
  "existingContainers (remember_loop cs opr) =
     (\<lambda>k. if k \<in> ID ` set cs then Some True else existingContainers opr k)"
  by (induction cs arbitrary: opr) (auto simp: fun_eq_iff)

lemma remembered_remember_loop:
  "remembered (remember_loop cs opr) = remembered opr \<union> ID ` set cs"
  by (auto simp: remembered_def remember_loop_map lookup_def)

section \<open>Checkpoint and diff\<close>

text \<open>
  Claim C1. For every remembered set of the operator and every container list \<open>C\<close> the list
  query returns, \<open>GetNewContainers\<close> returns exactly the containers of \<open>C\<close> whose ID is not
  remembered, in the order of \<open>C\<close>, and \<open>GetNewContainerIDs\<close> returns their IDs in that
  order. If the list query fails, both return no list and the wrapped error.
\<close>

theorem GetNewContainers_exactly_unremembered:
  "(ContainerList (client opr) ctx w = ((C, None), w') \<longrightarrow>
      GetNewContainers opr ctx w =
        ((filter (\<lambda>c. ID c \<notin> remembered opr) C, None), opr, w') \<and>
      GetNewContainerIDs opr ctx w =
        ((map ID (filter (\<lambda>c. ID c \<notin> remembered opr) C), None), opr, w'))
   \<and> (ContainerList (client opr) ctx w = ((C, Some e), w') \<longrightarrow>
      GetNewContainers opr ctx w =
        (([], Some (OperatorErr ErrContainerList (Some e))), opr, w') \<and>
      GetNewContainerIDs opr ctx w =
        (([], Some (OperatorErr ErrContainerList (Some e))), opr, w'))"
  by (simp add: GetNewContainers_def GetNewContainerIDs_def GetCurrentContainers_def
      new_loop_filter ids_loop_all)

text \<open>
  The scenario of the specification: remembered \<open>{A}\<close>, live \<open>A, B, C\<close> in that order; and a
  backend whose list query fails.
\<close>

theorem GetNewContainers_exactly_unremembered_witness:
  "ContainerList (client oprA) () world_ABC = (([cA, cB, cC], None), world_ABC)
   \<and> remembered oprA = {''A''}
   \<and> GetNewContainers oprA () world_ABC = (([cB, cC], None), oprA, world_ABC)
   \<and> GetNewContainerIDs oprA () world_ABC = (([''B'', ''C''], None), oprA, world_ABC)
   \<and> ContainerList (client oprA) () world_down =
       (([], Some (ExternalErr ''backend down'')), world_down)
   \<and> GetNewContainers oprA () world_down =
       (([], Some (OperatorErr ErrContainerList (Some (ExternalErr ''backend down'')))),
        oprA, world_down)"
proof -
  have l: "ContainerList (client oprA) () world_ABC = (([cA, cB, cC], None), world_ABC)"
    by (simp add: oprA_def fake_client_def world_ABC_def)
  have d: "ContainerList (client oprA) () world_down =
       (([], Some (ExternalErr ''backend down'')), world_down)"
    by (simp add: oprA_def fake_client_def world_down_def)
  have r: "remembered oprA = {''A''}"
    by (auto simp: remembered_def oprA_def lookup_def split: if_splits)
  have f: "filter (\<lambda>c. ID c \<notin> remembered oprA) [cA, cB, cC] = [cB, cC]"
    by (simp add: r cA_def cB_def cC_def)
  have i: "map ID [cB, cC] = [''B'', ''C'']"
    by (simp add: cB_def cC_def)
  show ?thesis
    using GetNewContainers_exactly_unremembered
            [of oprA "()" world_ABC "[cA, cB, cC]" world_ABC]
          GetNewContainers_exactly_unremembered
            [of oprA "()" world_down "[]" world_down "ExternalErr ''backend down''"]
          l d r f i
    by simp
qed

lemma Remember_ok:
  "ContainerList (client opr) ctx w = ((C, None), w') \<Longrightarrow>
   RememberCurrentContainerIDs opr ctx w = (None, remember_loop C opr, w')"
  by (simp add: RememberCurrentContainerIDs_def GetCurrentContainers_def)

lemma Remember_client:
  "client (fst (snd (RememberCurrentContainerIDs opr ctx w))) = client opr"
  by (simp add: RememberCurrentContainerIDs_def GetCurrentContainers_def remember_loop_client
      split: prod.splits)

lemma Remember_remembered:
  "remembered (fst (snd (RememberCurrentContainerIDs opr ctx w))) =
     remembered opr \<union>
     (if snd (fst (ContainerList (client opr) ctx w)) = None
      then ID ` set (fst (fst (ContainerList (client opr) ctx w))) else {})"
  by (simp add: RememberCurrentContainerIDs_def GetCurrentContainers_def
      remembered_remember_loop split: prod.splits)

lemma remember_calls_remembered:
  "\<forall>w \<in> set ws. snd (fst (ContainerList (client opr) ctx w)) = None \<Longrightarrow>
   remembered (remember_calls opr ctx ws) =
     remembered opr \<union> (\<Union>w \<in> set ws. ID ` set (fst (fst (ContainerList (client opr) ctx w))))"
proof (induction ws arbitrary: opr)
  case Nil
  then show ?case by simp
next
  case (Cons w ws)
  let ?opr' = "fst (snd (RememberCurrentContainerIDs opr ctx w))"
  have c: "client ?opr' = client opr" by (rule Remember_client)
  have "remembered (remember_calls ?opr' ctx ws) =
     remembered ?opr' \<union> (\<Union>w \<in> set ws. ID ` set (fst (fst (ContainerList (client ?opr') ctx w))))"
    using Cons.prems by (intro Cons.IH) (simp add: c)
  moreover have "remembered ?opr' =
      remembered opr \<union> ID ` set (fst (fst (ContainerList (client opr) ctx w)))"
    using Cons.prems by (simp add: Remember_remembered)
  ultimately show ?case by (simp add: c Un_assoc)
qed

lemma remembered_NewOperator: "remembered (NewOperator cl) = {}"
  by (simp add: remembered_def NewOperator_def lookup_def)

lemma client_NewOperator: "client (NewOperator cl) = cl"
  by (simp add: NewOperator_def)

lemma remember_loop_twice:
  "ID ` set cs' \<subseteq> ID ` set cs \<Longrightarrow>
   existingContainers (remember_loop cs' (remember_loop cs opr)) =
   existingContainers (remember_loop cs opr)"
  by (auto simp: remember_loop_map fun_eq_iff)

text \<open>
  Claim C4. \<open>RememberCurrentContainerIDs\<close> only adds to the remembered set. After any sequence
  of successful calls the remembered set is the set before the first call united with the IDs
  of the lists observed at the calls, so for a new operator it is the union of the observed
  IDs. A second call that observes the same list leaves the map of the operator as the first
  call left it, and no call, successful or failed, removes an ID.
\<close>

theorem Remember_union_monotone:
  "((\<forall>w \<in> set ws. snd (fst (ContainerList cl ctx w)) = None) \<longrightarrow>
      remembered (remember_calls (NewOperator cl) ctx ws) =
        (\<Union>w \<in> set ws. ID ` set (fst (fst (ContainerList cl ctx w)))))
   \<and> ((\<forall>w \<in> set ws. snd (fst (ContainerList (client opr) ctx w)) = None) \<longrightarrow>
      remembered (remember_calls opr ctx ws) =
        remembered opr \<union> (\<Union>w \<in> set ws. ID ` set (fst (fst (ContainerList (client opr) ctx w)))))
   \<and> (ContainerList (client opr) ctx w1 = ((C, None), w1') \<and>
      ContainerList (client opr) ctx w2 = ((C, None), w2') \<longrightarrow>
      remember_calls opr ctx [w1, w2] = remember_calls opr ctx [w1])
   \<and> remembered opr \<subseteq> remembered (fst (snd (RememberCurrentContainerIDs opr ctx w)))"
proof (intro conjI impI)
  assume a: "\<forall>w \<in> set ws. snd (fst (ContainerList cl ctx w)) = None"
  then show "remembered (remember_calls (NewOperator cl) ctx ws) =
        (\<Union>w \<in> set ws. ID ` set (fst (fst (ContainerList cl ctx w))))"
    using remember_calls_remembered [of ws "NewOperator cl" ctx]
    by (simp add: remembered_NewOperator client_NewOperator)
next
  assume "\<forall>w \<in> set ws. snd (fst (ContainerList (client opr) ctx w)) = None"
  then show "remembered (remember_calls opr ctx ws) =
        remembered opr \<union> (\<Union>w \<in> set ws. ID ` set (fst (fst (ContainerList (client opr) ctx w))))"
    by (rule remember_calls_remembered)
next
  assume a: "ContainerList (client opr) ctx w1 = ((C, None), w1') \<and>
      ContainerList (client opr) ctx w2 = ((C, None), w2')"
  let ?o1 = "remember_loop C opr"
  have 1: "RememberCurrentContainerIDs opr ctx w1 = (None, ?o1, w1')"
    using a by (simp add: Remember_ok)
  have "ContainerList (client ?o1) ctx w2 = ((C, None), w2')"
    using a by (simp add: remember_loop_client)
  then have 2: "RememberCurrentContainerIDs ?o1 ctx w2 = (None, remember_loop C ?o1, w2')"
    by (rule Remember_ok)
  have "remember_loop C ?o1 = ?o1"
    by (rule Operator.equality)
       (simp_all add: remember_loop_client remember_loop_twice)
  with 1 2 show "remember_calls opr ctx [w1, w2] = remember_calls opr ctx [w1]"
    by simp
next
  show "remembered opr \<subseteq> remembered (fst (snd (RememberCurrentContainerIDs opr ctx w)))"
    by (simp add: Remember_remembered)
qed

text \<open>
  Two checkpoints of a new operator, the backend listing \<open>A, B\<close> and then \<open>A, B, C\<close>; a
  repeated checkpoint with the list unchanged; a checkpoint that fails.
\<close>

theorem Remember_union_monotone_witness:
  "snd (fst (ContainerList fake_client () world_AB)) = None
   \<and> snd (fst (ContainerList fake_client () world_ABC)) = None
   \<and> remembered (remember_calls (NewOperator fake_client) () [world_AB, world_ABC]) =
       {''A'', ''B'', ''C''}
   \<and> remember_calls oprA () [world_AB, world_AB] = remember_calls oprA () [world_AB]
   \<and> remembered oprA \<subseteq> remembered (fst (snd (RememberCurrentContainerIDs oprA () world_down)))"
proof -
  have l: "ContainerList fake_client () world_AB = (([cA, cB], None), world_AB)"
          "ContainerList fake_client () world_ABC = (([cA, cB, cC], None), world_ABC)"
    by (simp_all add: fake_client_def world_AB_def world_ABC_def)
  have c: "client oprA = fake_client" by (simp add: oprA_def)
  have i: "ID ` set [cA, cB] \<union> ID ` set [cA, cB, cC] = {''A'', ''B'', ''C''}"
    by (auto simp: cA_def cB_def cC_def)
  show ?thesis
    using Remember_union_monotone
            [of "[world_AB, world_ABC]" fake_client "()" oprA world_AB "[cA, cB]" world_AB
                world_AB world_AB world_down]
          l c i
    by simp
qed

section \<open>Lookup by name\<close>

lemma HasName_iff:
  "HasName opr name c =
     (\<exists>a \<in> set (Names c). (if a \<noteq> [] \<and> hd a = CHR ''/'' then tl a else a) = name)"
  by (simp add: HasName_def names_loop_iff TrimPrefix_slash)

text \<open>
  Claim C5. \<open>GetNewContainerIDByName\<close> scans the new containers in order and returns the ID
  of the first one that has an alias equal to the name once one leading \<open>/\<close>, if there is
  one, is taken off; with no such container it returns the empty string and no error.
  \<open>Names = ["/foo"]\<close> and \<open>Names = ["foo"]\<close> match \<open>foo\<close>, and neither matches \<open>bar\<close>; only
  one separator is taken off, so \<open>"//foo"\<close> does not match \<open>foo\<close>.
\<close>

theorem GetNewContainerIDByName_first_match:
  "(ContainerList (client opr) ctx w = ((C, None), w') \<longrightarrow>
      GetNewContainerIDByName opr ctx name w =
        ((case find (\<lambda>c. \<exists>a \<in> set (Names c).
                        (if a \<noteq> [] \<and> hd a = CHR ''/'' then tl a else a) = name)
                 (filter (\<lambda>c. ID c \<notin> remembered opr) C) of
            None \<Rightarrow> ('''', None)
          | Some c \<Rightarrow> (ID c, None)), opr, w'))
   \<and> HasName opr ''foo'' \<lparr>ID = i, Names = [''/foo'']\<rparr>
   \<and> HasName opr ''foo'' \<lparr>ID = i, Names = [''foo'']\<rparr>
   \<and> \<not> HasName opr ''bar'' \<lparr>ID = i, Names = [''/foo'']\<rparr>
   \<and> \<not> HasName opr ''bar'' \<lparr>ID = i, Names = [''foo'']\<rparr>
   \<and> \<not> HasName opr ''foo'' \<lparr>ID = i, Names = [''//foo'']\<rparr>"
proof -
  have "(\<lambda>c. \<exists>a \<in> set (Names c). (if a \<noteq> [] \<and> hd a = CHR ''/'' then tl a else a) = name)
        = HasName opr name"
    by (simp add: fun_eq_iff HasName_iff)
  then have "ContainerList (client opr) ctx w = ((C, None), w') \<longrightarrow>
      GetNewContainerIDByName opr ctx name w =
        ((case find (\<lambda>c. \<exists>a \<in> set (Names c).
                        (if a \<noteq> [] \<and> hd a = CHR ''/'' then tl a else a) = name)
                 (filter (\<lambda>c. ID c \<notin> remembered opr) C) of
            None \<Rightarrow> ('''', None)
          | Some c \<Rightarrow> (ID c, None)), opr, w')"
    by (simp add: GetNewContainerIDByName_def GetNewContainers_def GetCurrentContainers_def
        new_loop_filter by_name_loop_find)
  then show ?thesis
    by (simp add: HasName_iff)
qed

text \<open>
  Remembered \<open>{A}\<close>, live \<open>A, B, C\<close> with \<open>A\<close> named \<open>/foo\<close> and \<open>B\<close> named \<open>foo\<close>: the
  name \<open>foo\<close> finds \<open>B\<close>, the first new container of that name; the name \<open>bar\<close> finds \<open>C\<close>;
  the name \<open>baz\<close> finds nothing.
\<close>

theorem GetNewContainerIDByName_first_match_witness:
  "ContainerList (client oprA) () world_ABC = (([cA, cB, cC], None), world_ABC)
   \<and> GetNewContainerIDByName oprA () ''foo'' world_ABC = ((''B'', None), oprA, world_ABC)
   \<and> GetNewContainerIDByName oprA () ''bar'' world_ABC = ((''C'', None), oprA, world_ABC)
   \<and> GetNewContainerIDByName oprA () ''baz'' world_ABC = (('''', None), oprA, world_ABC)"
proof -
  have l: "ContainerList (client oprA) () world_ABC = (([cA, cB, cC], None), world_ABC)"
    by (simp add: oprA_def fake_client_def world_ABC_def)
  have r: "remembered oprA = {''A''}"
    by (auto simp: remembered_def oprA_def lookup_def split: if_splits)
  have f: "filter (\<lambda>c. ID c \<notin> remembered oprA) [cA, cB, cC] = [cB, cC]"
    by (simp add: r cA_def cB_def cC_def)
  show ?thesis
    using GetNewContainerIDByName_first_match
            [of oprA "()" world_ABC "[cA, cB, cC]" world_ABC "''foo''"]
          GetNewContainerIDByName_first_match
            [of oprA "()" world_ABC "[cA, cB, cC]" world_ABC "''bar''"]
          GetNewContainerIDByName_first_match
            [of oprA "()" world_ABC "[cA, cB, cC]" world_ABC "''baz''"]
          l f
    by (simp add: cB_def cC_def)
qed

section \<open>Errors of the backend\<close>

text \<open>
  Claim C7. When the list query of the backend fails, \<open>GetCurrentContainers\<close> returns an
  \<open>OperatorErr\<close> with the reason \<open>ErrContainerList\<close> that wraps the error of the backend,
  while \<open>ContainerStats\<close> and \<open>KillContainer\<close> return the error of the backend as it is.
\<close>

theorem list_error_wrapped_stats_kill_unchanged:
  "(ContainerList (client opr) ctx w = ((C, Some e), w') \<longrightarrow>
      GetCurrentContainers opr ctx w =
        (([], Some (OperatorErr ErrContainerList (Some e))), opr, w'))
   \<and> (ContainerStats (client opr) ctx cid w = ((st, Some e), w') \<longrightarrow>
      Operator_ContainerStats opr ctx cid w = ((None, Some e), opr, w'))
   \<and> (ContainerKill (client opr) ctx cid w = (Some e, w') \<longrightarrow>
      KillContainer opr ctx cid w = (Some e, opr, w'))"
  by (simp add: GetCurrentContainers_def Operator_ContainerStats_def KillContainer_def)

theorem list_error_wrapped_stats_kill_unchanged_witness:
  "ContainerList (client oprA) () world_down =
     (([], Some (ExternalErr ''backend down'')), world_down)
   \<and> GetCurrentContainers oprA () world_down =
     (([], Some (OperatorErr ErrContainerList (Some (ExternalErr ''backend down'')))),
      oprA, world_down)
   \<and> ContainerStats (client oprA) () ''Z'' world_down =
     ((None, Some (ExternalErr ''no such container'')), world_down)
   \<and> Operator_ContainerStats oprA () ''Z'' world_down =
     ((None, Some (ExternalErr ''no such container'')), oprA, world_down)
   \<and> ContainerKill (client oprA) () ''Z'' world_down =
     (Some (ExternalErr ''no such container''), world_down)
   \<and> KillContainer oprA () ''Z'' world_down =
     (Some (ExternalErr ''no such container''), oprA, world_down)"
proof -
  have l: "ContainerList (client oprA) () world_down =
     (([], Some (ExternalErr ''backend down'')), world_down)"
    by (simp add: oprA_def fake_client_def world_down_def)
  have s: "ContainerStats (client oprA) () ''Z'' world_down =
     ((None, Some (ExternalErr ''no such container'')), world_down)"
    by (simp add: oprA_def fake_client_def world_down_def)
  have k: "ContainerKill (client oprA) () ''Z'' world_down =
     (Some (ExternalErr ''no such container''), world_down)"
    by (simp add: oprA_def fake_client_def world_down_def)
  show ?thesis
    using list_error_wrapped_stats_kill_unchanged
            [of oprA "()" world_down "[]" "ExternalErr ''backend down''" world_down]
          list_error_wrapped_stats_kill_unchanged
            [of oprA "()" world_down _ "ExternalErr ''no such container''" world_down
                "''Z''" None]
          l s k
    by simp
qed

section \<open>Resolving an ID file\<close>

lemma verifyID_ok:
  "ContainerList (client opr) ctx w = ((C, None), w') \<Longrightarrow>
   verifyID opr ctx cid w = ((cid \<in> ID ` set C, None), opr, w')"
  by (simp add: verifyID_def GetCurrentContainers_def verify_loop_iff)

lemma verifyID_err:
  "ContainerList (client opr) ctx w = ((C, Some e), w') \<Longrightarrow>
   verifyID opr ctx cid w =
     ((False, Some (OperatorErr ErrContainerList (Some e))), opr, w')"
  by (simp add: verifyID_def GetCurrentContainers_def)

lemma cidPathToID_read_err:
  "ReadFile fs p w = ((content, Some e), w1) \<Longrightarrow>
   cidPathToID opr fs ctx p w = (('''', Some e), opr, w1)"
  by (simp add: cidPathToID_def)

lemma cidPathToID_ok:
  "ReadFile fs p w = ((content, None), w1) \<Longrightarrow>
   ContainerList (client opr) ctx w1 = ((C, None), w2) \<Longrightarrow>
   cidPathToID opr fs ctx p w =
     ((if TrimSuffix content newline \<in> ID ` set C then TrimSuffix content newline else '''',
       None), opr, w2)"
  by (simp add: cidPathToID_def verifyID_ok Let_def)

lemma cidPathToID_list_err:
  "ReadFile fs p w = ((content, None), w1) \<Longrightarrow>
   ContainerList (client opr) ctx w1 = ((C, Some e), w2) \<Longrightarrow>
   cidPathToID opr fs ctx p w =
     (('''', Some (OperatorErr ErrContainerList (Some e))), opr, w2)"
  by (simp add: cidPathToID_def verifyID_err Let_def)

text \<open>
  Claim C2. When a file exists at the resolved path, its whole content is read and one
  trailing newline, if there is one, is taken off; what remains is the candidate ID. If a
  container of the live list has that ID the call returns it with no error, and if none has
  it the call returns the empty string with no error.
\<close>

theorem GetContainerIDByPath_existing_file:
  "Stat fs (RelToAbsPath fs path dir) w = (None, w1) \<and>
   ReadFile fs (RelToAbsPath fs path dir) w1 = ((content, None), w2) \<and>
   ContainerList (client opr) ctx w2 = ((C, None), w3) \<longrightarrow>
     (let candidate = (if content \<noteq> [] \<and> last content = CHR 0x0A
                       then butlast content else content)
      in GetContainerIDByPath opr fs ctx path dir w =
           ((if candidate \<in> ID ` set C then candidate else '''', None), opr, w3))"
  by (simp add: GetContainerIDByPath_def Let_def cidPathToID_ok TrimSuffix_newline)

text \<open>
  The scenario of the specification: the file holds \<open>abc123\<close> and a newline, and a container
  with the ID \<open>abc123\<close> is live. The path is relative to the directory \<open>/w\<close>. A file with the
  ID of no live container gives the empty string.
\<close>

theorem GetContainerIDByPath_existing_file_witness:
  "Stat fake_fs (RelToAbsPath fake_fs ''job.cid'' ''/w'') world_cid = (None, world_cid)
   \<and> ReadFile fake_fs (RelToAbsPath fake_fs ''job.cid'' ''/w'') world_cid =
       ((''abc123'' @ newline, None), world_cid)
   \<and> ContainerList (client oprA) () world_cid = (([c123], None), world_cid)
   \<and> GetContainerIDByPath oprA fake_fs () ''job.cid'' ''/w'' world_cid =
       ((''abc123'', None), oprA, world_cid)
   \<and> GetContainerIDByPath oprA fake_fs () ''/w/stale.cid'' ''/w'' world_cid =
       (('''', None), oprA, world_cid)"
proof -
  have p: "RelToAbsPath fake_fs ''job.cid'' ''/w'' = ''/w/job.cid''"
          "RelToAbsPath fake_fs ''/w/stale.cid'' ''/w'' = ''/w/stale.cid''"
    by (simp_all add: fake_fs_def HasPrefix_def)
  have s: "Stat fake_fs ''/w/job.cid'' world_cid = (None, world_cid)"
          "Stat fake_fs ''/w/stale.cid'' world_cid = (None, world_cid)"
    by (simp_all add: fake_fs_def world_cid_def)
  have r: "ReadFile fake_fs ''/w/job.cid'' world_cid = ((''abc123'' @ newline, None), world_cid)"
          "ReadFile fake_fs ''/w/stale.cid'' world_cid = ((''gone'' @ newline, None), world_cid)"
    by (simp_all add: fake_fs_def world_cid_def)
  have l: "ContainerList (client oprA) () world_cid = (([c123], None), world_cid)"
    by (simp add: oprA_def fake_client_def world_cid_def)
  show ?thesis
    using GetContainerIDByPath_existing_file
            [of fake_fs "''job.cid''" "''/w''" world_cid world_cid "''abc123'' @ newline"
                world_cid oprA "()" "[c123]" world_cid]
          GetContainerIDByPath_existing_file
            [of fake_fs "''/w/stale.cid''" "''/w''" world_cid world_cid "''gone'' @ newline"
                world_cid oprA "()" "[c123]" world_cid]
          p s r l
    by (simp add: newline_def c123_def)
qed

text \<open>
  Claim C8. The claim says that a file whose first line is the ID of a live container
  resolves to that ID whatever follows the first line, as the comments of
  \<open>GetContainerIDByPath\<close> and \<open>cidPathToID\<close> say. The code compares the whole content, less
  one trailing newline, with the live IDs: a file with a second line resolves to the empty
  string although its first line is the ID of a live container.
\<close>

theorem cid_file_with_second_line_not_resolved:
  "ReadFile fake_fs ''/w/multi.cid'' world_cid =
     ((''abc123'' @ newline @ ''second line'' @ newline, None), world_cid)
   \<and> ''abc123'' \<in> ID ` set (fst (fst (ContainerList (client oprA) () world_cid)))
   \<and> GetContainerIDByPath oprA fake_fs () ''/w/multi.cid'' ''/w'' world_cid =
       (('''', None), oprA, world_cid)"
  by (simp add: GetContainerIDByPath_def cidPathToID_def verifyID_def GetCurrentContainers_def
      TrimSuffix_def HasSuffix_def HasPrefix_def fake_fs_def fake_client_def world_cid_def
      oprA_def c123_def newline_def Let_def)

section \<open>The glob branch\<close>

lemma cidPathToID_frame: "fst (snd (cidPathToID opr fs ctx p w)) = opr"
  by (simp add: cidPathToID_def verifyID_def GetCurrentContainers_def Let_def
      split: prod.splits)

lemma glob_loop_frame: "fst (snd (glob_loop opr fs ctx ps w)) = opr"
proof (induction ps arbitrary: w)
  case Nil
  then show ?case by simp
next
  case (Cons p ps)
  obtain cid err opr' w' where r: "cidPathToID opr fs ctx p w = ((cid, err), opr', w')"
    by (metis prod.exhaust)
  then have "opr' = opr"
    using cidPathToID_frame [of opr fs ctx p w] by simp
  with r Cons.IH show ?case by simp
qed

lemma glob_loop_no_error: "snd (fst (glob_loop opr fs ctx ps w)) = None"
proof (induction ps arbitrary: opr w)
  case Nil
  then show ?case by simp
next
  case (Cons p ps)
  obtain cid err opr' w' where r: "cidPathToID opr fs ctx p w = ((cid, err), opr', w')"
    by (metis prod.exhaust)
  with Cons.IH show ?case by simp
qed

text \<open>
  One turn of the loop over the matches is one visit: the loop returns the ID the visit
  yields, or goes on with the rest in the world the visit left.
\<close>

lemma glob_loop_step:
  "glob_loop opr fs ctx (p # ps) w =
     (case visit opr fs ctx p w of
        (Some cid, w') \<Rightarrow> ((cid, None), opr, w')
      | (None, w') \<Rightarrow> glob_loop opr fs ctx ps w')"
  by (auto simp: cidPathToID_def verifyID_def GetCurrentContainers_def verify_loop_iff
      visit_def Let_def split: prod.splits)

lemma visit_all_Cons:
  "visit_all opr fs ctx (p # ps) w = visit_all opr fs ctx ps (snd (visit opr fs ctx p w))"
  by (simp add: visit_all_def)

lemma glob_loop_skip:
  "all_skipped opr fs ctx pre w \<Longrightarrow>
   glob_loop opr fs ctx (pre @ rest) w = glob_loop opr fs ctx rest (visit_all opr fs ctx pre w)"
proof (induction pre arbitrary: w)
  case Nil
  then show ?case by (simp add: visit_all_def)
next
  case (Cons p pre)
  obtain w' where v: "visit opr fs ctx p w = (None, w')"
    using Cons.prems by (cases "visit opr fs ctx p w") simp
  then have "glob_loop opr fs ctx ((p # pre) @ rest) w = glob_loop opr fs ctx (pre @ rest) w'"
    using glob_loop_step [of opr fs ctx p "pre @ rest" w] by simp
  also have "\<dots> = glob_loop opr fs ctx rest (visit_all opr fs ctx pre w')"
    using Cons.prems v by (intro Cons.IH) simp
  finally show ?case using v by (simp add: visit_all_Cons)
qed

lemma glob_loop_first_valid:
  assumes "all_skipped opr fs ctx pre w"
    and "fst (visit opr fs ctx p (visit_all opr fs ctx pre w)) = Some cid"
  shows "glob_loop opr fs ctx (pre @ p # post) w =
     ((cid, None), opr, snd (visit opr fs ctx p (visit_all opr fs ctx pre w)))"
proof -
  let ?w = "visit_all opr fs ctx pre w"
  obtain w' where v: "visit opr fs ctx p ?w = (Some cid, w')"
    using assms(2) by (cases "visit opr fs ctx p ?w") simp
  have "glob_loop opr fs ctx (pre @ p # post) w = glob_loop opr fs ctx (p # post) ?w"
    using assms(1) by (rule glob_loop_skip)
  also have "\<dots> = ((cid, None), opr, w')"
    using v by (simp add: glob_loop_step del: glob_loop.simps)
  finally show ?thesis using v by simp
qed

lemma glob_loop_none_valid:
  "all_skipped opr fs ctx ps w \<Longrightarrow>
   glob_loop opr fs ctx ps w = (('''', None), opr, visit_all opr fs ctx ps w)"
  using glob_loop_skip [of opr fs ctx ps w "[]"] by simp

text \<open>
  Claim C3, as stated: with no file at the resolved path, the matches of the glob are
  visited in order and the call returns the ID of the first match whose content verifies
  against the live list. It fails where the first such match holds the empty ID: the file
  \<open>/w/app1.cid\<close> is empty, a live container has the empty ID, so the content verifies, yet
  the call goes on to \<open>/w/app2.cid\<close> and returns \<open>B\<close>.
\<close>

theorem glob_first_verifying_match_counterexample:
  "fst (Stat fake_fs (RelToAbsPath fake_fs ''/w/*.cid'' ''/w'') world_empty_id) =
     Some (ExternalErr ''no such file or directory'')
   \<and> fst (Glob fake_fs ''/w/*.cid'' world_empty_id) = ([''/w/app1.cid'', ''/w/app2.cid''], None)
   \<and> fst (ReadFile fake_fs ''/w/app1.cid'' world_empty_id) = ('''', None)
   \<and> fst (verifyID oprA () (TrimSuffix '''' newline) world_empty_id) = (True, None)
   \<and> fst (GetContainerIDByPath oprA fake_fs () ''/w/*.cid'' ''/w'' world_empty_id) =
       (''B'', None)
   \<and> ''B'' \<noteq> TrimSuffix '''' newline"
  by (simp add: GetContainerIDByPath_def cidPathGlobToID_def cidPathToID_def verifyID_def
      GetCurrentContainers_def TrimSuffix_def HasSuffix_def HasPrefix_def fake_fs_def
      fake_client_def world_empty_id_def oprA_def cEmpty_def cB_def newline_def Let_def)

text \<open>
  Claim C3, amended. When no file exists at the exact resolved path, the path is expanded as
  a glob and the matches are visited in the order the glob engine returns them; the call
  returns the ID of the first match whose file content is a non-empty ID that verifies
  against the live container list, listed anew for that match. A match that is unreadable
  or yields no valid ID is skipped; if no match yields a valid ID the result is the empty
  string with no error; if the glob pattern is syntactically invalid a non-nil error is
  returned.
\<close>

theorem GetContainerIDByPath_glob_first_valid:
  "Stat fs (RelToAbsPath fs path dir) w = (Some se, w1) \<longrightarrow>
     (Glob fs (RelToAbsPath fs path dir) w1 = ((paths, Some ge), w2) \<longrightarrow>
        GetContainerIDByPath opr fs ctx path dir w = (('''', Some ge), opr, w2))
     \<and> (Glob fs (RelToAbsPath fs path dir) w1 = ((paths, None), w2)
        \<and> paths = pre @ p # post
        \<and> all_skipped opr fs ctx pre w2
        \<and> fst (visit opr fs ctx p (visit_all opr fs ctx pre w2)) = Some cid \<longrightarrow>
        GetContainerIDByPath opr fs ctx path dir w =
          ((cid, None), opr, snd (visit opr fs ctx p (visit_all opr fs ctx pre w2))))
     \<and> (Glob fs (RelToAbsPath fs path dir) w1 = ((paths, None), w2)
        \<and> all_skipped opr fs ctx paths w2 \<longrightarrow>
        GetContainerIDByPath opr fs ctx path dir w =
          (('''', None), opr, visit_all opr fs ctx paths w2))"
proof (intro impI conjI)
  assume "Stat fs (RelToAbsPath fs path dir) w = (Some se, w1)"
    and "Glob fs (RelToAbsPath fs path dir) w1 = ((paths, Some ge), w2)"
  then show "GetContainerIDByPath opr fs ctx path dir w = (('''', Some ge), opr, w2)"
    by (simp add: GetContainerIDByPath_def cidPathGlobToID_def Let_def)
next
  assume s: "Stat fs (RelToAbsPath fs path dir) w = (Some se, w1)"
    and a: "Glob fs (RelToAbsPath fs path dir) w1 = ((paths, None), w2)
        \<and> paths = pre @ p # post
        \<and> all_skipped opr fs ctx pre w2
        \<and> fst (visit opr fs ctx p (visit_all opr fs ctx pre w2)) = Some cid"
  have "GetContainerIDByPath opr fs ctx path dir w = glob_loop opr fs ctx (pre @ p # post) w2"
    using s a by (simp add: GetContainerIDByPath_def cidPathGlobToID_def Let_def)
  also have "\<dots> = ((cid, None), opr, snd (visit opr fs ctx p (visit_all opr fs ctx pre w2)))"
    using a by (intro glob_loop_first_valid) simp_all
  finally show "GetContainerIDByPath opr fs ctx path dir w =
      ((cid, None), opr, snd (visit opr fs ctx p (visit_all opr fs ctx pre w2)))" .
next
  assume s: "Stat fs (RelToAbsPath fs path dir) w = (Some se, w1)"
    and a: "Glob fs (RelToAbsPath fs path dir) w1 = ((paths, None), w2)
        \<and> all_skipped opr fs ctx paths w2"
  have "GetContainerIDByPath opr fs ctx path dir w = glob_loop opr fs ctx paths w2"
    using s a by (simp add: GetContainerIDByPath_def cidPathGlobToID_def Let_def)
  also have "\<dots> = (('''', None), opr, visit_all opr fs ctx paths w2)"
    using a by (intro glob_loop_none_valid) simp
  finally show "GetContainerIDByPath opr fs ctx path dir w =
      (('''', None), opr, visit_all opr fs ctx paths w2)" .
qed

text \<open>
  The scenarios of the specification: the glob matches an unreadable file, then a file with
  a stale ID, then a file with the ID of the live container \<open>B\<close>; a glob with no match; a
  malformed pattern. And a backend that changes during the call: both matched files hold the
  ID \<open>B\<close>, the container \<open>B\<close> is not live when the first is verified and is live when the
  second is, so the first is skipped and the second gives the ID.
\<close>

theorem GetContainerIDByPath_glob_first_valid_witness:
  "fst (Stat fake_fs (RelToAbsPath fake_fs ''*.cid'' ''/w'') world_ABC) \<noteq> None
   \<and> Glob fake_fs (RelToAbsPath fake_fs ''*.cid'' ''/w'') world_ABC =
       (([''/w/app0.cid'', ''/w/app1.cid'', ''/w/app2.cid''], None), world_ABC)
   \<and> GetContainerIDByPath oprA fake_fs () ''*.cid'' ''/w'' world_ABC =
       ((''B'', None), oprA, world_ABC)
   \<and> GetContainerIDByPath oprA fake_fs () ''/w/none*'' ''/w'' world_ABC =
       (('''', None), oprA, world_ABC)
   \<and> GetContainerIDByPath oprA fake_fs () ''/w/[bad'' ''/w'' world_ABC =
       (('''', Some (ExternalErr ''syntax error in pattern'')), oprA, world_ABC)
   \<and> fst (visit oprLate fake_fs () ''/w/app1.cid'' world_late) = None
   \<and> GetContainerIDByPath oprLate fake_fs () ''*.cid'' ''/w'' world_late =
       ((''B'', None), oprLate, world_late\<lparr>fw_live := [cA, cB, cB]\<rparr>)"
proof -
  let ?nf = "ExternalErr ''no such file or directory''"
  have p: "RelToAbsPath fake_fs ''*.cid'' ''/w'' = ''/w/*.cid''"
          "RelToAbsPath fake_fs ''/w/none*'' ''/w'' = ''/w/none*''"
          "RelToAbsPath fake_fs ''/w/[bad'' ''/w'' = ''/w/[bad''"
    by (simp_all add: fake_fs_def HasPrefix_def)
  have s: "Stat fake_fs ''/w/*.cid'' world_ABC = (Some ?nf, world_ABC)"
          "Stat fake_fs ''/w/none*'' world_ABC = (Some ?nf, world_ABC)"
          "Stat fake_fs ''/w/[bad'' world_ABC = (Some ?nf, world_ABC)"
          "Stat fake_fs ''/w/*.cid'' world_late = (Some ?nf, world_late)"
    by (simp_all add: fake_fs_def world_ABC_def world_late_def)
  have g: "Glob fake_fs ''/w/*.cid'' world_ABC =
             (([''/w/app0.cid'', ''/w/app1.cid'', ''/w/app2.cid''], None), world_ABC)"
          "Glob fake_fs ''/w/none*'' world_ABC = (([], None), world_ABC)"
          "Glob fake_fs ''/w/[bad'' world_ABC =
             (([], Some (ExternalErr ''syntax error in pattern'')), world_ABC)"
          "Glob fake_fs ''/w/*.cid'' world_late =
             (([''/w/app1.cid'', ''/w/app2.cid''], None), world_late)"
    by (simp_all add: fake_fs_def world_ABC_def world_late_def)
  have v: "visit oprA fake_fs () ''/w/app0.cid'' world_ABC = (None, world_ABC)"
          "visit oprA fake_fs () ''/w/app1.cid'' world_ABC = (None, world_ABC)"
          "visit oprA fake_fs () ''/w/app2.cid'' world_ABC = (Some ''B'', world_ABC)"
    by (simp_all add: visit_def fake_fs_def fake_client_def oprA_def world_ABC_def
        TrimSuffix_def HasSuffix_def newline_def cA_def cB_def cC_def)
  have l: "visit oprLate fake_fs () ''/w/app1.cid'' world_late =
             (None, world_late\<lparr>fw_live := [cA, cB]\<rparr>)"
          "visit oprLate fake_fs () ''/w/app2.cid'' (world_late\<lparr>fw_live := [cA, cB]\<rparr>) =
             (Some ''B'', world_late\<lparr>fw_live := [cA, cB, cB]\<rparr>)"
    by (simp_all add: visit_def fake_fs_def fake_client_def starting_client_def oprLate_def
        world_late_def TrimSuffix_def HasSuffix_def newline_def cA_def cB_def)
  have 1: "GetContainerIDByPath oprA fake_fs () ''*.cid'' ''/w'' world_ABC =
       ((''B'', None), oprA, world_ABC)"
    using GetContainerIDByPath_glob_first_valid
            [where fs = fake_fs and path = "''*.cid''" and dir = "''/w''" and w = world_ABC
               and se = ?nf and ?w1.0 = world_ABC and ?w2.0 = world_ABC and opr = oprA
               and ctx = "()" and pre = "[''/w/app0.cid'', ''/w/app1.cid'']"
               and p = "''/w/app2.cid''" and post = "[]" and cid = "''B''"
               and paths = "[''/w/app0.cid'', ''/w/app1.cid'', ''/w/app2.cid'']"]
          p s g
    by (simp add: v visit_all_def)
  have 2: "GetContainerIDByPath oprA fake_fs () ''/w/none*'' ''/w'' world_ABC =
       (('''', None), oprA, world_ABC)"
    using GetContainerIDByPath_glob_first_valid
            [where fs = fake_fs and path = "''/w/none*''" and dir = "''/w''" and w = world_ABC
               and se = ?nf and ?w1.0 = world_ABC and ?w2.0 = world_ABC and opr = oprA
               and ctx = "()" and paths = "[]"]
          p s g
    by (simp add: visit_all_def)
  have 3: "GetContainerIDByPath oprA fake_fs () ''/w/[bad'' ''/w'' world_ABC =
       (('''', Some (ExternalErr ''syntax error in pattern'')), oprA, world_ABC)"
    using GetContainerIDByPath_glob_first_valid
            [where fs = fake_fs and path = "''/w/[bad''" and dir = "''/w''" and w = world_ABC
               and se = ?nf and ?w1.0 = world_ABC and ?w2.0 = world_ABC and opr = oprA
               and ctx = "()" and paths = "[]"
               and ge = "ExternalErr ''syntax error in pattern''"]
          p s g
    by simp
  have 4: "GetContainerIDByPath oprLate fake_fs () ''*.cid'' ''/w'' world_late =
       ((''B'', None), oprLate, world_late\<lparr>fw_live := [cA, cB, cB]\<rparr>)"
    using GetContainerIDByPath_glob_first_valid
            [where fs = fake_fs and path = "''*.cid''" and dir = "''/w''" and w = world_late
               and se = ?nf and ?w1.0 = world_late and ?w2.0 = world_late and opr = oprLate
               and ctx = "()" and pre = "[''/w/app1.cid'']"
               and p = "''/w/app2.cid''" and post = "[]" and cid = "''B''"
               and paths = "[''/w/app1.cid'', ''/w/app2.cid'']"]
          p s g
    by (simp add: l visit_all_def)
  show ?thesis
    using 1 2 3 4 p s g l by simp
qed

section \<open>Propagation of failures\<close>

text \<open>
  Claim C6, as stated: every failure of a collaborator is returned to the caller and none
  becomes a successful empty result, a listing failure while a glob match is verified
  included. It fails in the glob branch: no file is at \<open>/w/*.cid\<close>, the glob matches three
  files, the list query fails, and \<open>GetContainerIDByPath\<close> returns the empty string with no
  error.
\<close>

theorem glob_candidate_list_failure_counterexample:
  "fst (Stat fake_fs (RelToAbsPath fake_fs ''/w/*.cid'' ''/w'') world_down) \<noteq> None
   \<and> fst (Glob fake_fs ''/w/*.cid'' world_down) =
       ([''/w/app0.cid'', ''/w/app1.cid'', ''/w/app2.cid''], None)
   \<and> fst (ReadFile fake_fs ''/w/app2.cid'' world_down) = (''B'' @ newline, None)
   \<and> fst (ContainerList (client oprA) () world_down) =
       ([], Some (ExternalErr ''backend down''))
   \<and> fst (verifyID oprA () ''B'' world_down) =
       (False, Some (OperatorErr ErrContainerList (Some (ExternalErr ''backend down''))))
   \<and> fst (GetContainerIDByPath oprA fake_fs () ''/w/*.cid'' ''/w'' world_down) = ('''', None)"
  by (simp add: GetContainerIDByPath_def cidPathGlobToID_def cidPathToID_def verifyID_def
      GetCurrentContainers_def TrimSuffix_def HasSuffix_def HasPrefix_def fake_fs_def
      fake_client_def world_down_def world_ABC_def oprA_def newline_def Let_def)

text \<open>
  Claim C6, amended. A failure of the list query is returned wrapped by
  \<open>GetCurrentContainers\<close>, \<open>RememberCurrentContainerIDs\<close>, \<open>GetNewContainers\<close>,
  \<open>GetNewContainerIDs\<close> and \<open>GetNewContainerIDByName\<close>; a failure of the stats or kill query
  is returned as it is. In \<open>GetContainerIDByPath\<close>, when the file exists, a failure to read
  it is returned as it is and a failure of the list query is returned wrapped; when \<open>Stat\<close>
  fails, that failure only selects the glob branch, where a failure of the glob expansion is
  returned as it is and, once the expansion has succeeded, no error is returned: a failure
  met on a matched file only skips that file.
\<close>

theorem failures_surfaced_except_glob_candidates:
  "(ContainerList (client opr) ctx w = ((C, Some e), w') \<longrightarrow>
      GetCurrentContainers opr ctx w =
        (([], Some (OperatorErr ErrContainerList (Some e))), opr, w') \<and>
      RememberCurrentContainerIDs opr ctx w =
        (Some (OperatorErr ErrContainerList (Some e)), opr, w') \<and>
      GetNewContainers opr ctx w =
        (([], Some (OperatorErr ErrContainerList (Some e))), opr, w') \<and>
      GetNewContainerIDs opr ctx w =
        (([], Some (OperatorErr ErrContainerList (Some e))), opr, w') \<and>
      GetNewContainerIDByName opr ctx name w =
        (('''', Some (OperatorErr ErrContainerList (Some e))), opr, w'))
   \<and> (ContainerStats (client opr) ctx cid w = ((st, Some e), w') \<longrightarrow>
      Operator_ContainerStats opr ctx cid w = ((None, Some e), opr, w'))
   \<and> (ContainerKill (client opr) ctx cid w = (Some e, w') \<longrightarrow>
      KillContainer opr ctx cid w = (Some e, opr, w'))
   \<and> (Stat fs (RelToAbsPath fs path dir) w = (None, w1) \<and>
      ReadFile fs (RelToAbsPath fs path dir) w1 = ((content, Some e), w2) \<longrightarrow>
      GetContainerIDByPath opr fs ctx path dir w = (('''', Some e), opr, w2))
   \<and> (Stat fs (RelToAbsPath fs path dir) w = (None, w1) \<and>
      ReadFile fs (RelToAbsPath fs path dir) w1 = ((content, None), w2) \<and>
      ContainerList (client opr) ctx w2 = ((C, Some e), w3) \<longrightarrow>
      GetContainerIDByPath opr fs ctx path dir w =
        (('''', Some (OperatorErr ErrContainerList (Some e))), opr, w3))
   \<and> (Stat fs (RelToAbsPath fs path dir) w = (Some se, w1) \<and>
      Glob fs (RelToAbsPath fs path dir) w1 = ((paths, Some e), w2) \<longrightarrow>
      GetContainerIDByPath opr fs ctx path dir w = (('''', Some e), opr, w2))
   \<and> (Stat fs (RelToAbsPath fs path dir) w = (Some se, w1) \<and>
      Glob fs (RelToAbsPath fs path dir) w1 = ((paths, None), w2) \<longrightarrow>
      snd (fst (GetContainerIDByPath opr fs ctx path dir w)) = None)"
proof (intro conjI impI)
  assume "ContainerList (client opr) ctx w = ((C, Some e), w')"
  then show
    "GetCurrentContainers opr ctx w =
       (([], Some (OperatorErr ErrContainerList (Some e))), opr, w')"
    "RememberCurrentContainerIDs opr ctx w =
       (Some (OperatorErr ErrContainerList (Some e)), opr, w')"
    "GetNewContainers opr ctx w =
       (([], Some (OperatorErr ErrContainerList (Some e))), opr, w')"
    "GetNewContainerIDs opr ctx w =
       (([], Some (OperatorErr ErrContainerList (Some e))), opr, w')"
    "GetNewContainerIDByName opr ctx name w =
       (('''', Some (OperatorErr ErrContainerList (Some e))), opr, w')"
    by (simp_all add: GetCurrentContainers_def RememberCurrentContainerIDs_def
        GetNewContainers_def GetNewContainerIDs_def GetNewContainerIDByName_def)
next
  assume "ContainerStats (client opr) ctx cid w = ((st, Some e), w')"
  then show "Operator_ContainerStats opr ctx cid w = ((None, Some e), opr, w')"
    by (simp add: Operator_ContainerStats_def)
next
  assume "ContainerKill (client opr) ctx cid w = (Some e, w')"
  then show "KillContainer opr ctx cid w = (Some e, opr, w')"
    by (simp add: KillContainer_def)
next
  assume "Stat fs (RelToAbsPath fs path dir) w = (None, w1) \<and>
      ReadFile fs (RelToAbsPath fs path dir) w1 = ((content, Some e), w2)"
  then show "GetContainerIDByPath opr fs ctx path dir w = (('''', Some e), opr, w2)"
    by (simp add: GetContainerIDByPath_def Let_def cidPathToID_read_err)
next
  assume "Stat fs (RelToAbsPath fs path dir) w = (None, w1) \<and>
      ReadFile fs (RelToAbsPath fs path dir) w1 = ((content, None), w2) \<and>
      ContainerList (client opr) ctx w2 = ((C, Some e), w3)"
  then show "GetContainerIDByPath opr fs ctx path dir w =
        (('''', Some (OperatorErr ErrContainerList (Some e))), opr, w3)"
    by (simp add: GetContainerIDByPath_def Let_def cidPathToID_list_err)
next
  assume "Stat fs (RelToAbsPath fs path dir) w = (Some se, w1) \<and>
      Glob fs (RelToAbsPath fs path dir) w1 = ((paths, Some e), w2)"
  then show "GetContainerIDByPath opr fs ctx path dir w = (('''', Some e), opr, w2)"
    by (simp add: GetContainerIDByPath_def Let_def cidPathGlobToID_def)
next
  assume "Stat fs (RelToAbsPath fs path dir) w = (Some se, w1) \<and>
      Glob fs (RelToAbsPath fs path dir) w1 = ((paths, None), w2)"
  then show "snd (fst (GetContainerIDByPath opr fs ctx path dir w)) = None"
    by (simp add: GetContainerIDByPath_def Let_def cidPathGlobToID_def glob_loop_no_error)
qed

text \<open>
  A backend that is down, an unknown container, an unreadable file at the exact path, a
  readable file while the backend is down, a malformed pattern, and a glob whose matches all
  fail.
\<close>

theorem failures_surfaced_except_glob_candidates_witness:
  "GetNewContainerIDByName oprA () ''foo'' world_down =
     (('''', Some (OperatorErr ErrContainerList (Some (ExternalErr ''backend down'')))),
      oprA, world_down)
   \<and> RememberCurrentContainerIDs oprA () world_down =
     (Some (OperatorErr ErrContainerList (Some (ExternalErr ''backend down''))),
      oprA, world_down)
   \<and> Operator_ContainerStats oprA () ''Z'' world_ABC =
     ((None, Some (ExternalErr ''no such container'')), oprA, world_ABC)
   \<and> KillContainer oprA () ''Z'' world_ABC =
     (Some (ExternalErr ''no such container''), oprA, world_ABC)
   \<and> GetContainerIDByPath oprA fake_fs () ''/w/app0.cid'' ''/w'' world_ABC =
     (('''', Some (ExternalErr ''permission denied'')), oprA, world_ABC)
   \<and> GetContainerIDByPath oprA fake_fs () ''/w/app2.cid'' ''/w'' world_down =
     (('''', Some (OperatorErr ErrContainerList (Some (ExternalErr ''backend down'')))),
      oprA, world_down)
   \<and> GetContainerIDByPath oprA fake_fs () ''/w/[bad'' ''/w'' world_ABC =
     (('''', Some (ExternalErr ''syntax error in pattern'')), oprA, world_ABC)
   \<and> snd (fst (GetContainerIDByPath oprA fake_fs () ''/w/*.cid'' ''/w'' world_down)) = None"
proof -
  let ?down = "ExternalErr ''backend down''"
  let ?nf = "ExternalErr ''no such file or directory''"
  have p: "RelToAbsPath fake_fs ''/w/app0.cid'' ''/w'' = ''/w/app0.cid''"
          "RelToAbsPath fake_fs ''/w/app2.cid'' ''/w'' = ''/w/app2.cid''"
          "RelToAbsPath fake_fs ''/w/[bad'' ''/w'' = ''/w/[bad''"
          "RelToAbsPath fake_fs ''/w/*.cid'' ''/w'' = ''/w/*.cid''"
    by (simp_all add: fake_fs_def HasPrefix_def)
  have l: "ContainerList (client oprA) () world_down = (([], Some ?down), world_down)"
    by (simp add: oprA_def fake_client_def world_down_def)
  have k: "ContainerStats (client oprA) () ''Z'' world_ABC =
             ((None, Some (ExternalErr ''no such container'')), world_ABC)"
          "ContainerKill (client oprA) () ''Z'' world_ABC =
             (Some (ExternalErr ''no such container''), world_ABC)"
    by (simp_all add: oprA_def fake_client_def world_ABC_def cA_def cB_def cC_def)
  have s: "Stat fake_fs ''/w/app0.cid'' world_ABC = (None, world_ABC)"
          "Stat fake_fs ''/w/app2.cid'' world_down = (None, world_down)"
          "Stat fake_fs ''/w/[bad'' world_ABC = (Some ?nf, world_ABC)"
          "Stat fake_fs ''/w/*.cid'' world_down = (Some ?nf, world_down)"
    by (simp_all add: fake_fs_def world_ABC_def world_down_def)
  have r: "ReadFile fake_fs ''/w/app0.cid'' world_ABC =
             (('''', Some (ExternalErr ''permission denied'')), world_ABC)"
          "ReadFile fake_fs ''/w/app2.cid'' world_down = ((''B'' @ newline, None), world_down)"
    by (simp_all add: fake_fs_def world_ABC_def world_down_def)
  have g: "Glob fake_fs ''/w/[bad'' world_ABC =
             (([], Some (ExternalErr ''syntax error in pattern'')), world_ABC)"
          "Glob fake_fs ''/w/*.cid'' world_down =
             (([''/w/app0.cid'', ''/w/app1.cid'', ''/w/app2.cid''], None), world_down)"
    by (simp_all add: fake_fs_def world_ABC_def world_down_def)
  note t = failures_surfaced_except_glob_candidates
             [where opr = oprA and ctx = "()" and fs = fake_fs and dir = "''/w''"]
  have 1: "GetNewContainerIDByName oprA () ''foo'' world_down =
             (('''', Some (OperatorErr ErrContainerList (Some ?down))), oprA, world_down)"
          "RememberCurrentContainerIDs oprA () world_down =
             (Some (OperatorErr ErrContainerList (Some ?down)), oprA, world_down)"
    using t [where w = world_down and w' = world_down and C = "[]" and e = ?down
               and name = "''foo''"] l
    by simp_all
  have 2: "Operator_ContainerStats oprA () ''Z'' world_ABC =
             ((None, Some (ExternalErr ''no such container'')), oprA, world_ABC)"
          "KillContainer oprA () ''Z'' world_ABC =
             (Some (ExternalErr ''no such container''), oprA, world_ABC)"
    using t [where w = world_ABC and w' = world_ABC and cid = "''Z''" and st = None
               and e = "ExternalErr ''no such container''"] k
    by simp_all
  have 3: "GetContainerIDByPath oprA fake_fs () ''/w/app0.cid'' ''/w'' world_ABC =
             (('''', Some (ExternalErr ''permission denied'')), oprA, world_ABC)"
    using t [where w = world_ABC and path = "''/w/app0.cid''" and ?w1.0 = world_ABC
               and ?w2.0 = world_ABC and content = "''''"
               and e = "ExternalErr ''permission denied''"] p s r
    by simp
  have 4: "GetContainerIDByPath oprA fake_fs () ''/w/app2.cid'' ''/w'' world_down =
             (('''', Some (OperatorErr ErrContainerList (Some ?down))), oprA, world_down)"
    using t [where w = world_down and path = "''/w/app2.cid''" and ?w1.0 = world_down
               and ?w2.0 = world_down and ?w3.0 = world_down and content = "''B'' @ newline"
               and C = "[]" and e = ?down] p s r l
    by simp
  have 5: "GetContainerIDByPath oprA fake_fs () ''/w/[bad'' ''/w'' world_ABC =
             (('''', Some (ExternalErr ''syntax error in pattern'')), oprA, world_ABC)"
    using t [where w = world_ABC and path = "''/w/[bad''" and ?w1.0 = world_ABC
               and ?w2.0 = world_ABC and se = ?nf and paths = "[]"
               and e = "ExternalErr ''syntax error in pattern''"] p s g
    by simp
  have 6: "snd (fst (GetContainerIDByPath oprA fake_fs () ''/w/*.cid'' ''/w'' world_down)) = None"
    using t [where w = world_down and path = "''/w/*.cid''" and ?w1.0 = world_down
               and ?w2.0 = world_down and se = ?nf
               and paths = "[''/w/app0.cid'', ''/w/app1.cid'', ''/w/app2.cid'']"] p s g
    by simp
  show ?thesis
    using 1 2 3 4 5 6 by simp
qed

section \<open>Frame of the operator\<close>

text \<open>
  Claim C9. Every operation other than \<open>RememberCurrentContainerIDs\<close> leaves the operator,
  and so its remembered set, as it found it, whether it succeeds or fails.
\<close>

theorem only_Remember_changes_operator:
  "fst (snd (GetCurrentContainers opr ctx w)) = opr
   \<and> fst (snd (GetNewContainers opr ctx w)) = opr
   \<and> fst (snd (GetNewContainerIDs opr ctx w)) = opr
   \<and> fst (snd (GetNewContainerIDByName opr ctx name w)) = opr
   \<and> fst (snd (GetContainerIDByPath opr fs ctx path dir w)) = opr
   \<and> fst (snd (Operator_ContainerStats opr ctx cid w)) = opr
   \<and> fst (snd (KillContainer opr ctx cid w)) = opr
   \<and> remembered (fst (snd (GetContainerIDByPath opr fs ctx path dir w))) = remembered opr"
proof -
  have g: "fst (snd (GetContainerIDByPath opr fs ctx path dir w)) = opr"
    by (simp add: GetContainerIDByPath_def cidPathGlobToID_def Let_def cidPathToID_frame
        glob_loop_frame split: prod.splits)
  have "fst (snd (GetCurrentContainers opr ctx w)) = opr"
       "fst (snd (GetNewContainers opr ctx w)) = opr"
       "fst (snd (GetNewContainerIDs opr ctx w)) = opr"
       "fst (snd (GetNewContainerIDByName opr ctx name w)) = opr"
       "fst (snd (Operator_ContainerStats opr ctx cid w)) = opr"
       "fst (snd (KillContainer opr ctx cid w)) = opr"
    by (simp_all add: GetCurrentContainers_def GetNewContainers_def GetNewContainerIDs_def
        GetNewContainerIDByName_def Operator_ContainerStats_def KillContainer_def
        split: prod.splits)
  with g show ?thesis by simp
qed

text \<open>
  An operator that remembers \<open>A\<close> still remembers exactly \<open>A\<close> after a lookup by path, while
  a checkpoint in the same world changes it.
\<close>

theorem only_Remember_changes_operator_witness:
  "fst (snd (GetContainerIDByPath oprA fake_fs () ''*.cid'' ''/w'' world_ABC)) = oprA
   \<and> fst (snd (GetNewContainerIDs oprA () world_ABC)) = oprA
   \<and> fst (snd (KillContainer oprA () ''B'' world_ABC)) = oprA
   \<and> remembered (fst (snd (RememberCurrentContainerIDs oprA () world_ABC))) \<noteq> remembered oprA"
proof -
  have "''B'' \<in> remembered (remember_loop [cA, cB, cC] oprA)"
    by (simp add: remembered_remember_loop cB_def del: remember_loop.simps)
  moreover have "''B'' \<notin> remembered oprA"
    by (simp add: remembered_def oprA_def lookup_def)
  moreover have "RememberCurrentContainerIDs oprA () world_ABC =
      (None, remember_loop [cA, cB, cC] oprA, world_ABC)"
    by (rule Remember_ok) (simp add: oprA_def fake_client_def world_ABC_def)
  ultimately have "remembered (fst (snd (RememberCurrentContainerIDs oprA () world_ABC)))
      \<noteq> remembered oprA"
    by auto
  then show ?thesis
    using only_Remember_changes_operator
            [of oprA "()" world_ABC "''foo''" fake_fs "''*.cid''" "''/w''" "''B''"]
    by simp
qed

end
